theory Spec2Isabelle
  imports Main "HOL-Library.Word"
begin

section \<open>The render-graph pass runtime of agzm (Direct3D 12 back end)\<close>

text \<open>
  The development embeds \<^verbatim>\<open>graphics_api/d3d12/graph/passRuntime.cpp\<close>: the constructor
  and \<^verbatim>\<open>execute\<close> of \<^verbatim>\<open>PassRuntime\<close>, and the members of \<^verbatim>\<open>PassContext\<close>
  (constructor, \<^verbatim>\<open>getFrameIndex\<close>, \<^verbatim>\<open>getCommandList\<close>, \<^verbatim>\<open>operator->\<close>,
  \<^verbatim>\<open>getRawResource\<close>, \<^verbatim>\<open>getDescriptor\<close>).

  Objects reached through a pointer are stored by value: the source dereferences
  \<^verbatim>\<open>runtime_\<close>, \<^verbatim>\<open>callback_\<close>, \<^verbatim>\<open>resource\<close> and \<^verbatim>\<open>descriptorSlot\<close> without a
  check, and the model takes them to be valid. A C++ exception is a value \<open>Inl e\<close> of a
  sum type. A member \<^verbatim>\<open>name_\<close> of a class is written \<open>name'\<close>, and so is the field
  \<^verbatim>\<open>end\<close> of a transition. The calls that \<^verbatim>\<open>execute\<close> makes on the outside world
  (the command list and the pass body) are collected, in order, in a list that the model
  returns.
\<close>

subsection \<open>Direct3D 12 data\<close>

type_synonym UINT = "32 word"

text \<open>\<^verbatim>\<open>D3D12_RESOURCE_STATES\<close> is a 32-bit flag enumeration; the code only compares it.\<close>

type_synonym D3D12_RESOURCE_STATES = "32 word"

text \<open>\<^verbatim>\<open>ID3D12Resource *\<close>, \<^verbatim>\<open>RawGraphicsCommandList *\<close>: the address of the native object.\<close>

type_synonym ID3D12Resource = nat
type_synonym RawGraphicsCommandList = nat

text \<open>A descriptor is an opaque handle of the native API.\<close>

type_synonym Descriptor = nat

text \<open>
  A transition barrier as \<^verbatim>\<open>CD3DX12_RESOURCE_BARRIER::Transition(pResource, stateBefore,
  stateAfter, subresource)\<close> of the D3DX12 helper header fills it. Its type tag and flags
  are the same for every barrier built here and are left out.
\<close>

record D3D12_RESOURCE_BARRIER =
  pResource :: ID3D12Resource
  StateBefore :: D3D12_RESOURCE_STATES
  StateAfter :: D3D12_RESOURCE_STATES
  Subresource :: UINT

definition Transition ::
  "ID3D12Resource \<Rightarrow> D3D12_RESOURCE_STATES \<Rightarrow> D3D12_RESOURCE_STATES \<Rightarrow> UINT
    \<Rightarrow> D3D12_RESOURCE_BARRIER" where
  "Transition res stateBefore stateAfter subresource =
     \<lparr>pResource = res, StateBefore = stateBefore, StateAfter = stateAfter,
      Subresource = subresource\<rparr>"

subsection \<open>Graph data\<close>

datatype error = D3D12Exception string

text \<open>
  A logical resource; the code reads \<^verbatim>\<open>getIndex()\<close> and \<^verbatim>\<open>getName()\<close>. Elsewhere a
  resource is referred to by its index, the key \<^verbatim>\<open>getRawResource\<close> of the runtime takes.
\<close>

record Resource =
  getIndex :: int
  getName :: string

record DescriptorSlot =
  descriptor :: Descriptor

record ResourceUsage =
  descriptorSlot :: DescriptorSlot

text \<open>
  The graph runtime is not part of the sources. \<^verbatim>\<open>execute\<close> and \<^verbatim>\<open>PassContext\<close> use
  one member of it, \<^verbatim>\<open>getRawResource\<close>, with the resource as its only argument; it is a
  parameter of the model, a function from the resource to the pointer it returns.
\<close>

record GraphRuntime =
  runtime_getRawResource :: "int \<Rightarrow> ID3D12Resource"

record StateTransition =
  resource :: int
  subrsc :: UINT
  beg :: D3D12_RESOURCE_STATES
  mid :: D3D12_RESOURCE_STATES
  end' :: D3D12_RESOURCE_STATES


subsection \<open>PassContext\<close>

record PassContext =
  ctx_runtime' :: GraphRuntime
  frameIndex' :: int
  cmdList' :: RawGraphicsCommandList
  resources' :: "int \<rightharpoonup> ResourceUsage"

text \<open>The constructor of the sources: each argument goes to the member of its name.\<close>

definition PassContext ::
  "GraphRuntime \<Rightarrow> int \<Rightarrow> RawGraphicsCommandList \<Rightarrow> (int \<rightharpoonup> ResourceUsage) \<Rightarrow> PassContext" where
  "PassContext runtime frameIndex cmdList resourceUsages =
     \<lparr>ctx_runtime' = runtime, frameIndex' = frameIndex, cmdList' = cmdList,
      resources' = resourceUsages\<rparr>"

definition getFrameIndex :: "PassContext \<Rightarrow> int" where
  "getFrameIndex ctx = frameIndex' ctx"

definition getCommandList :: "PassContext \<Rightarrow> RawGraphicsCommandList" where
  "getCommandList ctx = cmdList' ctx"

text \<open>\<^verbatim>\<open>PassContext::operator->\<close>.\<close>

definition operator_arrow :: "PassContext \<Rightarrow> RawGraphicsCommandList" where
  "operator_arrow ctx = cmdList' ctx"

text \<open>\<^verbatim>\<open>getRawResource\<close> is \<^verbatim>\<open>noexcept\<close>: its result is a plain handle.\<close>

definition getRawResource :: "PassContext \<Rightarrow> Resource \<Rightarrow> ID3D12Resource" where
  "getRawResource ctx res = runtime_getRawResource (ctx_runtime' ctx) (getIndex res)"

definition getDescriptor :: "PassContext \<Rightarrow> Resource \<Rightarrow> error + Descriptor" where
  "getDescriptor ctx res =
     (case resources' ctx (getIndex res) of
        None \<Rightarrow> Inl (D3D12Exception (''undecled resource usage of '' @ getName res))
      | Some usage \<Rightarrow> Inr (descriptor (descriptorSlot usage)))"

text \<open>
  An entry of the pass's descriptor table; the code reads \<^verbatim>\<open>getResource()\<close>, the
  resource the descriptor is a view of.
\<close>

record DescriptorItem =
  getResource :: int

text \<open>
  \<^verbatim>\<open>PassContext::DescriptorMap\<close>, in iteration order. Its declaration is not in the
  sources; what it maps to is what the context's lookup reads, a usage with its
  descriptor slot. The declaration of \<^verbatim>\<open>PassContext::DescriptorRangeMap\<close> is not in the
  sources either and no code that is reads it: it is the type parameter \<open>'dr\<close> below.
\<close>

type_synonym DescriptorMap = "(DescriptorItem \<times> ResourceUsage) list"

text \<open>
  Modelled from the spec: the six-argument constructor of \<^verbatim>\<open>PassContext\<close> that
  \<^verbatim>\<open>PassRuntime::execute\<close> calls is missing from the sources, which hold the
  four-argument one above. The spec has \<^verbatim>\<open>execute\<close> "construct a PassContext scoped to
  this pass's declared descriptor/resource maps", a context that answers
  \<^verbatim>\<open>getFrameIndex\<close>, gives access to the command recorder and serves \<^verbatim>\<open>getDescriptor\<close>
  from the pass's usage set. So the runtime, the frame index and the command list are
  stored as the four-argument constructor stores them, and the per-resource descriptor
  map is the usage set. The context of the sources has no member for the other two maps.
\<close>

definition PassContext6 ::
  "GraphRuntime \<Rightarrow> int \<Rightarrow> RawGraphicsCommandList \<Rightarrow> DescriptorMap
    \<Rightarrow> (int \<rightharpoonup> ResourceUsage) \<Rightarrow> 'dr \<Rightarrow> PassContext" where
  "PassContext6 runtime frameIndex cmdList descriptors descriptorResourcesMap descriptorRanges =
     PassContext runtime frameIndex cmdList descriptorResourcesMap"

subsection \<open>PassRuntime\<close>

text \<open>
  The pass body is a callback object applied to the context; it returns or throws.
  What the body itself records on the command list is its own business and is not
  followed here.
  \<^verbatim>\<open>entryBarriers_\<close> and \<^verbatim>\<open>exitBarriers_\<close> are the two members that the
  \<^verbatim>\<open>const\<close> member function \<^verbatim>\<open>execute\<close> writes.
\<close>

type_synonym PassCallback = "PassContext \<Rightarrow> error + unit"

record 'dr PassRuntime =
  runtime' :: GraphRuntime
  callback' :: PassCallback
  transitions' :: "StateTransition list"
  descriptors' :: DescriptorMap
  descriptorRanges' :: 'dr
  descriptorResourcesMap' :: "int \<rightharpoonup> ResourceUsage"
  entryBarriers' :: "D3D12_RESOURCE_BARRIER list"
  exitBarriers' :: "D3D12_RESOURCE_BARRIER list"

text \<open>The constructor: the body's loop files every descriptor under its resource.\<close>

definition PassRuntime ::
  "GraphRuntime \<Rightarrow> PassCallback \<Rightarrow> StateTransition list \<Rightarrow> DescriptorMap \<Rightarrow> 'dr
    \<Rightarrow> 'dr PassRuntime" where
  "PassRuntime runtime callback transitions descriptors descriptorRanges =
     \<lparr>runtime' = runtime, callback' = callback, transitions' = transitions,
      descriptors' = descriptors, descriptorRanges' = descriptorRanges,
      descriptorResourcesMap' =
        foldl (\<lambda>m p. m(getResource (fst p) \<mapsto> snd p)) Map.empty descriptors,
      entryBarriers' = [], exitBarriers' = []\<rparr>"

text \<open>
  What \<^verbatim>\<open>execute\<close> does to the outside world: \<^verbatim>\<open>cmdList->ResourceBarrier(NumBarriers,
  pBarriers)\<close>, with the command list, the count and the array it is given, and
  \<^verbatim>\<open>(*callback_)(passContext)\<close>.
\<close>

datatype call =
  is_ResourceBarrier: ResourceBarrier RawGraphicsCommandList UINT "D3D12_RESOURCE_BARRIER list"
| is_Callback: Callback PassContext

text \<open>
  The result of one \<^verbatim>\<open>execute\<close>: the pass runtime as the call leaves it, the calls
  made in order, and whether \<^verbatim>\<open>execute\<close> returned (\<open>Inr ()\<close>) or was left by an
  exception (\<open>Inl e\<close>).
\<close>

record 'dr Execution =
  after :: "'dr PassRuntime"
  calls :: "call list"
  outcome :: "error + unit"

text \<open>The loop over \<^verbatim>\<open>transitions_\<close>.\<close>

fun execute_loop :: "'dr PassRuntime \<Rightarrow> StateTransition list \<Rightarrow> 'dr PassRuntime" where
  "execute_loop p [] = p"
| "execute_loop p (rt # rest) =
     (let
        p1 = (if beg rt \<noteq> mid rt
              then p\<lparr>entryBarriers' := entryBarriers' p @
                     [Transition (runtime_getRawResource (runtime' p) (resource rt))
                        (beg rt) (mid rt) (subrsc rt)]\<rparr>
              else p);
        p2 = (if mid rt \<noteq> end' rt
              then p1\<lparr>exitBarriers' := exitBarriers' p1 @
                     [Transition (runtime_getRawResource (runtime' p1) (resource rt))
                        (mid rt) (end' rt) (subrsc rt)]\<rparr>
              else p1)
      in execute_loop p2 rest)"

text \<open>
  \<^verbatim>\<open>static_cast<UINT>(entryBarriers_.size())\<close> keeps the low 32 bits of the size, which is
  what \<open>of_nat\<close> into \<open>32 word\<close> does. An exception of the body leaves \<^verbatim>\<open>execute\<close> at the
  call of the body.
\<close>

definition execute :: "'dr PassRuntime \<Rightarrow> int \<Rightarrow> RawGraphicsCommandList \<Rightarrow> 'dr Execution" where
  "execute p frameIndex cmdList =
     (let
        p1 = p\<lparr>entryBarriers' := []\<rparr>;
        p2 = p1\<lparr>exitBarriers' := []\<rparr>;
        p3 = execute_loop p2 (transitions' p2);
        log1 = (if entryBarriers' p3 \<noteq> []
                then [ResourceBarrier cmdList (of_nat (length (entryBarriers' p3)))
                        (entryBarriers' p3)]
                else []);
        passContext = PassContext6 (runtime' p3) frameIndex cmdList
                        (descriptors' p3) (descriptorResourcesMap' p3) (descriptorRanges' p3);
        log2 = log1 @ [Callback passContext]
      in case callback' p3 passContext of
           Inl e \<Rightarrow> \<lparr>after = p3, calls = log2, outcome = Inl e\<rparr>
         | Inr u \<Rightarrow>
             \<lparr>after = p3,
              calls = (if exitBarriers' p3 \<noteq> []
                       then log2 @ [ResourceBarrier cmdList (of_nat (length (exitBarriers' p3)))
                                      (exitBarriers' p3)]
                       else log2),
              outcome = Inr ()\<rparr>)"

subsection \<open>Observations on a list of calls\<close>

text \<open>The barrier batches of a list of calls, in order, without the command list they went to.\<close>

fun barrierBatches :: "call list \<Rightarrow> (UINT \<times> D3D12_RESOURCE_BARRIER list) list" where
  "barrierBatches [] = []"
| "barrierBatches (ResourceBarrier cmdList numBarriers barriers # cs) =
     (numBarriers, barriers) # barrierBatches cs"
| "barrierBatches (Callback ctx # cs) = barrierBatches cs"

text \<open>The contexts that the pass body was called with, in order.\<close>

fun contexts :: "call list \<Rightarrow> PassContext list" where
  "contexts [] = []"
| "contexts (ResourceBarrier cmdList numBarriers barriers # cs) = contexts cs"
| "contexts (Callback ctx # cs) = ctx # contexts cs"

text \<open>The barrier that the loop pushes for a transition, on entry and on exit.\<close>

abbreviation entryBarrierOf :: "GraphRuntime \<Rightarrow> StateTransition \<Rightarrow> D3D12_RESOURCE_BARRIER" where
  "entryBarrierOf g t \<equiv>
     Transition (runtime_getRawResource g (resource t)) (beg t) (mid t) (subrsc t)"

abbreviation exitBarrierOf :: "GraphRuntime \<Rightarrow> StateTransition \<Rightarrow> D3D12_RESOURCE_BARRIER" where
  "exitBarrierOf g t \<equiv>
     Transition (runtime_getRawResource g (resource t)) (mid t) (end' t) (subrsc t)"

subsection \<open>The specification's wording, for comparison\<close>

text \<open>
  The specification's \<^verbatim>\<open>getRawResource\<close> of a context: the undeclared-usage condition
  for a resource that the pass did not declare, the runtime's handle otherwise.
\<close>

definition spec_getRawResource :: "PassContext \<Rightarrow> Resource \<Rightarrow> error + ID3D12Resource" where
  "spec_getRawResource ctx res =
     (if getIndex res \<in> dom (resources' ctx)
      then Inr (runtime_getRawResource (ctx_runtime' ctx) (getIndex res))
      else Inl (D3D12Exception (''undecled resource usage of '' @ getName res)))"



subsection \<open>A sample graph\<close>

text \<open>
  A double-buffered provider: resource \<open>i\<close> lives at address \<open>100 + 2 i\<close> in even frames
  and at \<open>101 + 2 i\<close> in odd ones. \<open>ex_runtime\<close> is a runtime that answers with the
  instances of an even frame.
\<close>

definition ex_resolve :: "int \<Rightarrow> int \<Rightarrow> ID3D12Resource" where
  "ex_resolve resourceIndex frameIndex = nat (100 + 2 * resourceIndex + frameIndex mod 2)"

definition ex_runtime :: GraphRuntime where
  "ex_runtime = \<lparr>runtime_getRawResource = (\<lambda>i. ex_resolve i 0)\<rparr>"

definition ex_usage :: ResourceUsage where
  "ex_usage = \<lparr>descriptorSlot = \<lparr>descriptor = 5\<rparr>\<rparr>"

text \<open>
  Three transitions (states: 0 common, 4 render target, 128 pixel shader resource):
  resource 1 goes 0, 4, 0 (an entry and an exit barrier), resource 2 stays in 4 (no
  barrier), resource 3 goes 0, 128, 128 (an entry barrier only).
\<close>

definition ex_transitions :: "StateTransition list" where
  "ex_transitions =
     [\<lparr>resource = 1, subrsc = 0, beg = 0, mid = 4, end' = 0\<rparr>,
      \<lparr>resource = 2, subrsc = 0, beg = 4, mid = 4, end' = 4\<rparr>,
      \<lparr>resource = 3, subrsc = 1, beg = 0, mid = 128, end' = 128\<rparr>]"

text \<open>A pass that declares a descriptor for resource 1 and whose body never asks for it.\<close>

definition ex_pass :: "unit PassRuntime" where
  "ex_pass = PassRuntime ex_runtime (\<lambda>ctx. Inr ()) ex_transitions
               [(\<lparr>getResource = 1\<rparr>, ex_usage)] ()"

text \<open>The same pass with a body that asks for the descriptor of resource 2, not declared.\<close>

definition ex_pass_undeclared :: "unit PassRuntime" where
  "ex_pass_undeclared =
     PassRuntime ex_runtime
       (\<lambda>ctx. case getDescriptor ctx \<lparr>getIndex = 2, getName = ''depth''\<rparr> of
                 Inl e \<Rightarrow> Inl e | Inr d \<Rightarrow> Inr ())
       ex_transitions [(\<lparr>getResource = 1\<rparr>, ex_usage)] ()"

text \<open>The same pass with a body that throws when it is given command list 8.\<close>

definition ex_pass_recorder :: "unit PassRuntime" where
  "ex_pass_recorder =
     PassRuntime ex_runtime
       (\<lambda>ctx. if getCommandList ctx = 8 then Inl (D3D12Exception ''command list 8'')
               else Inr ())
       ex_transitions [(\<lparr>getResource = 1\<rparr>, ex_usage)] ()"

definition ex_ctx :: PassContext where
  "ex_ctx = PassContext ex_runtime 0 7 [1 \<mapsto> ex_usage]"

definition ex_declared :: Resource where
  "ex_declared = \<lparr>getIndex = 1, getName = ''color''\<rparr>"

definition ex_undeclared :: Resource where
  "ex_undeclared = \<lparr>getIndex = 2, getName = ''depth''\<rparr>"

section \<open>Properties of execute\<close>

subsection \<open>The loop and the three components of an execution\<close>

text \<open>
  The loop appends to the two lists it finds, in the order of the transitions, and
  touches nothing else.
\<close>

lemma execute_loop_eq:
  "execute_loop p ts =
     p\<lparr>entryBarriers' := entryBarriers' p @
          map (entryBarrierOf (runtime' p)) (filter (\<lambda>t. beg t \<noteq> mid t) ts),
       exitBarriers' := exitBarriers' p @
          map (exitBarrierOf (runtime' p)) (filter (\<lambda>t. mid t \<noteq> end' t) ts)\<rparr>"
proof (induction ts arbitrary: p)
  case Nil
  show ?case by simp
next
  case (Cons rt rest)
  show ?case by (simp add: Cons.IH Let_def)
qed

lemma after_execute:
  "after (execute p frameIndex cmdList) =
     p\<lparr>entryBarriers' :=
          map (entryBarrierOf (runtime' p)) (filter (\<lambda>t. beg t \<noteq> mid t) (transitions' p)),
       exitBarriers' :=
          map (exitBarrierOf (runtime' p)) (filter (\<lambda>t. mid t \<noteq> end' t) (transitions' p))\<rparr>"
  by (simp add: execute_def Let_def execute_loop_eq split: sum.split)

lemma outcome_execute:
  "outcome (execute p frameIndex cmdList) =
     callback' p (PassContext6 (runtime' p) frameIndex cmdList (descriptors' p)
                    (descriptorResourcesMap' p) (descriptorRanges' p))"
  by (simp add: execute_def Let_def execute_loop_eq split: sum.split)

lemma calls_execute:
  "calls (execute p frameIndex cmdList) =
     (let r = execute p frameIndex cmdList;
          entry = entryBarriers' (after r);
          exit = exitBarriers' (after r)
      in (if entry = [] then [] else [ResourceBarrier cmdList (of_nat (length entry)) entry])
         @ [Callback (PassContext6 (runtime' p) frameIndex cmdList (descriptors' p)
                        (descriptorResourcesMap' p) (descriptorRanges' p))]
         @ (if outcome r = Inr () \<and> exit \<noteq> []
            then [ResourceBarrier cmdList (of_nat (length exit)) exit] else []))"
  by (simp add: execute_def Let_def execute_loop_eq split: sum.split)

lemma barrierBatches_append:
  "barrierBatches (xs @ ys) = barrierBatches xs @ barrierBatches ys"
  by (induction xs rule: barrierBatches.induct) simp_all

lemma contexts_append: "contexts (xs @ ys) = contexts xs @ contexts ys"
  by (induction xs rule: contexts.induct) simp_all

lemma barrierBatches_execute:
  "barrierBatches (calls (execute p frameIndex cmdList)) =
     (let r = execute p frameIndex cmdList;
          entry = entryBarriers' (after r);
          exit = exitBarriers' (after r)
      in (if entry = [] then [] else [(of_nat (length entry), entry)])
         @ (if outcome r = Inr () \<and> exit \<noteq> [] then [(of_nat (length exit), exit)] else []))"
  by (simp add: calls_execute Let_def barrierBatches_append)



text \<open>The sample pass, executed at any frame index on any command list.\<close>

lemma ex_after:
  "after (execute ex_pass frameIndex cmdList) =
     ex_pass\<lparr>entryBarriers' := [Transition 102 0 4 0, Transition 106 0 128 1],
              exitBarriers' := [Transition 102 4 0 0]\<rparr>"
  by (simp add: after_execute ex_pass_def PassRuntime_def ex_transitions_def ex_runtime_def
      ex_resolve_def)

lemma ex_outcome: "outcome (execute ex_pass frameIndex cmdList) = Inr ()"
  by (simp add: outcome_execute ex_pass_def PassRuntime_def)

text \<open>
  A body that asks for an undeclared descriptor: the exception leaves \<^verbatim>\<open>execute\<close>, after
  the entry barriers and before any exit barrier.
\<close>

lemma ex_undeclared_body_fails:
  "outcome (execute ex_pass_undeclared 0 7) =
     Inl (D3D12Exception ''undecled resource usage of depth'')
   \<and> barrierBatches (calls (execute ex_pass_undeclared 0 7)) =
       [(2, [Transition 102 0 4 0, Transition 106 0 128 1])]
   \<and> exitBarriers' (after (execute ex_pass_undeclared 0 7)) = [Transition 102 4 0 0]"
proof -
  have "outcome (execute ex_pass_undeclared 0 7) =
          Inl (D3D12Exception ''undecled resource usage of depth'')"
    by (simp add: outcome_execute ex_pass_undeclared_def PassRuntime_def PassContext6_def
        PassContext_def getDescriptor_def)
  moreover have "after (execute ex_pass_undeclared 0 7) =
      ex_pass_undeclared\<lparr>entryBarriers' := [Transition 102 0 4 0, Transition 106 0 128 1],
                          exitBarriers' := [Transition 102 4 0 0]\<rparr>"
    by (simp add: after_execute ex_pass_undeclared_def PassRuntime_def ex_transitions_def
        ex_runtime_def ex_resolve_def)
  ultimately show ?thesis
    by (simp add: barrierBatches_execute)
qed

subsection \<open>The barrier lists\<close>

text \<open>
  Claim C1. After every \<^verbatim>\<open>execute(frameIndex, cmdList)\<close> the entry list holds, in the
  order of the stored transitions, exactly one transition barrier from \<open>beg\<close> to \<open>mid\<close>
  for each transition whose \<open>beg\<close> differs from \<open>mid\<close>, and the exit list exactly one
  barrier from \<open>mid\<close> to \<open>end\<close> for each transition whose \<open>mid\<close> differs from \<open>end\<close>; a
  transition with \<open>beg = mid\<close> gives no entry barrier, one with \<open>mid = end\<close> no exit
  barrier. This holds whatever the two lists held before and whether or not the body
  throws.
\<close>

theorem execute_barrier_lists:
  "entryBarriers' (after (execute p frameIndex cmdList)) =
     map (\<lambda>t. Transition (runtime_getRawResource (runtime' p) (resource t))
                 (beg t) (mid t) (subrsc t))
       (filter (\<lambda>t. beg t \<noteq> mid t) (transitions' p))
   \<and> exitBarriers' (after (execute p frameIndex cmdList)) =
     map (\<lambda>t. Transition (runtime_getRawResource (runtime' p) (resource t))
                 (mid t) (end' t) (subrsc t))
       (filter (\<lambda>t. mid t \<noteq> end' t) (transitions' p))"
  by (simp add: after_execute)

subsection \<open>The order of the calls\<close>

text \<open>
  Claim C2. Every \<^verbatim>\<open>execute\<close> calls the pass body exactly once, with the context built
  from the runtime, the frame index, the command list and the three maps of this pass
  (\<^verbatim>\<open>descriptors_\<close>, \<^verbatim>\<open>descriptorResourcesMap_\<close>, \<^verbatim>\<open>descriptorRanges_\<close>). The
  submission of the entry barriers, when there is one, is the call before it and the
  submission of the exit barriers, when there is one, the call after it; nothing else is
  called. The outcome of \<^verbatim>\<open>execute\<close> is the outcome of the body on that context.
\<close>

theorem execute_calls_body_once:
  "calls (execute p frameIndex cmdList) =
     (let r = execute p frameIndex cmdList;
          entry = entryBarriers' (after r);
          exit = exitBarriers' (after r)
      in (if entry = [] then [] else [ResourceBarrier cmdList (of_nat (length entry)) entry])
         @ [Callback (PassContext6 (runtime' p) frameIndex cmdList (descriptors' p)
                        (descriptorResourcesMap' p) (descriptorRanges' p))]
         @ (if outcome r = Inr () \<and> exit \<noteq> []
            then [ResourceBarrier cmdList (of_nat (length exit)) exit] else []))
   \<and> filter is_Callback (calls (execute p frameIndex cmdList)) =
       [Callback (PassContext6 (runtime' p) frameIndex cmdList (descriptors' p)
                    (descriptorResourcesMap' p) (descriptorRanges' p))]
   \<and> outcome (execute p frameIndex cmdList) =
       callback' p (PassContext6 (runtime' p) frameIndex cmdList (descriptors' p)
                      (descriptorResourcesMap' p) (descriptorRanges' p))"
proof (intro conjI)
  show "filter is_Callback (calls (execute p frameIndex cmdList)) =
       [Callback (PassContext6 (runtime' p) frameIndex cmdList (descriptors' p)
                    (descriptorResourcesMap' p) (descriptorRanges' p))]"
    by (simp add: calls_execute Let_def)
qed (rule calls_execute, rule outcome_execute)

subsection \<open>Batching\<close>



section \<open>Properties of PassContext\<close>

text \<open>
  Claim C4. \<^verbatim>\<open>getDescriptor(resource)\<close> on a context whose usage set has no entry for
  the resource's index fails with the exception "undecled resource usage of" followed by
  the resource's name; on a context whose usage set has an entry for it, it returns the
  descriptor of the slot of that entry.
\<close>

theorem getDescriptor_declared_or_fails:
  "(resources' ctx (getIndex res) = None \<longrightarrow>
      getDescriptor ctx res =
        Inl (D3D12Exception (''undecled resource usage of '' @ getName res)))
   \<and> (\<forall>usage. resources' ctx (getIndex res) = Some usage \<longrightarrow>
        getDescriptor ctx res = Inr (descriptor (descriptorSlot usage)))"
  by (simp add: getDescriptor_def)

theorem getDescriptor_declared_or_fails_witness:
  "resources' ex_ctx (getIndex ex_undeclared) = None
   \<and> getDescriptor ex_ctx ex_undeclared =
       Inl (D3D12Exception ''undecled resource usage of depth'')
   \<and> resources' ex_ctx (getIndex ex_declared) = Some ex_usage
   \<and> getDescriptor ex_ctx ex_declared = Inr 5"
  using getDescriptor_declared_or_fails [of ex_ctx ex_undeclared]
    getDescriptor_declared_or_fails [of ex_ctx ex_declared]
  by (simp add: ex_ctx_def PassContext_def ex_undeclared_def ex_declared_def ex_usage_def)

text \<open>
  \<^verbatim>\<open>getRawResource\<close> does not look at the usage set. On the sample context, which declares
  resource 1 only, resource 2 gets the handle that the runtime has for it, where the
  specification's wording has the undeclared-usage condition.
\<close>

theorem getRawResource_undeclared_counterexample:
  "resources' ex_ctx (getIndex ex_undeclared) = None
   \<and> getRawResource ex_ctx ex_undeclared = 104
   \<and> spec_getRawResource ex_ctx ex_undeclared =
       Inl (D3D12Exception ''undecled resource usage of depth'')
   \<and> Inr (getRawResource ex_ctx ex_undeclared) \<noteq> spec_getRawResource ex_ctx ex_undeclared"
  by (simp add: ex_ctx_def PassContext_def ex_undeclared_def getRawResource_def
      spec_getRawResource_def ex_runtime_def ex_resolve_def)

text \<open>
  Claim C5, amended. \<^verbatim>\<open>getRawResource(resource)\<close> of a context makes no check against
  the usage set of the pass: for every resource, declared or not, it returns the handle
  that the runtime's \<^verbatim>\<open>getRawResource\<close> gives for the resource's index, and it never
  raises the undeclared-usage condition (it is \<^verbatim>\<open>noexcept\<close>).
\<close>

theorem getRawResource_ignores_usages:
  "getRawResource (PassContext runtime frameIndex cmdList resourceUsages) res =
     runtime_getRawResource runtime (getIndex res)
   \<and> getRawResource (ctx\<lparr>resources' := resourceUsages\<rparr>) res = getRawResource ctx res"
  by (simp add: getRawResource_def PassContext_def)

section \<open>Frames, determinism and the state of the pass\<close>



text \<open>
  The exit batch is submitted once the body has returned. A body that throws on one of
  the two command lists: the same pass, at frame index 0 both times, with the same runtime,
  submits an entry and an exit batch to command list 7 and the entry batch alone to
  command list 8.
\<close>

theorem execute_two_run_counterexample:
  "transitions' (after (execute ex_pass_recorder 0 7)) = transitions' ex_pass_recorder
   \<and> runtime' (after (execute ex_pass_recorder 0 7)) = runtime' ex_pass_recorder
   \<and> callback' (after (execute ex_pass_recorder 0 7)) = callback' ex_pass_recorder
   \<and> barrierBatches (calls (execute ex_pass_recorder 0 7)) =
       [(2, [Transition 102 0 4 0, Transition 106 0 128 1]), (1, [Transition 102 4 0 0])]
   \<and> barrierBatches (calls (execute (after (execute ex_pass_recorder 0 7)) 0 8)) =
       [(2, [Transition 102 0 4 0, Transition 106 0 128 1])]
   \<and> barrierBatches (calls (execute ex_pass_recorder 0 7)) \<noteq>
       barrierBatches (calls (execute (after (execute ex_pass_recorder 0 7)) 0 8))"
proof -
  have after7: "after (execute ex_pass_recorder 0 7) =
      ex_pass_recorder\<lparr>entryBarriers' := [Transition 102 0 4 0, Transition 106 0 128 1],
                        exitBarriers' := [Transition 102 4 0 0]\<rparr>"
    by (simp add: after_execute ex_pass_recorder_def PassRuntime_def ex_transitions_def
        ex_runtime_def ex_resolve_def)
  have body: "callback' ex_pass_recorder =
      (\<lambda>ctx. if getCommandList ctx = 8 then Inl (D3D12Exception ''command list 8'')
              else Inr ())"
    by (simp add: ex_pass_recorder_def PassRuntime_def)
  have run7: "barrierBatches (calls (execute ex_pass_recorder 0 7)) =
      [(2, [Transition 102 0 4 0, Transition 106 0 128 1]), (1, [Transition 102 4 0 0])]"
    by (simp add: barrierBatches_execute after7 outcome_execute body getCommandList_def
        PassContext6_def PassContext_def)
  have after8: "after (execute (after (execute ex_pass_recorder 0 7)) 0 8) =
      after (execute ex_pass_recorder 0 7)"
    unfolding after7 by (simp add: after_execute ex_pass_recorder_def PassRuntime_def
        ex_transitions_def ex_runtime_def ex_resolve_def)
  have run8: "barrierBatches (calls (execute (after (execute ex_pass_recorder 0 7)) 0 8)) =
      [(2, [Transition 102 0 4 0, Transition 106 0 128 1])]"
    unfolding barrierBatches_execute Let_def after8
    by (simp add: after7 outcome_execute body getCommandList_def PassContext6_def
        PassContext_def)
  show ?thesis
    unfolding run7 run8 by (simp add: after7)
qed

text \<open>
  Claim C7, amended. Two executions at the same frame index, of passes with the same
  transitions (the same compiled pass, an unchanged graph) and with runtimes that resolve
  the resources of these transitions to the same handles (a deterministic provider), in
  both of which the body returns or in both of which it throws, submit the same sequence
  of barrier batches, count for count and barrier for barrier, to their command lists.
\<close>

theorem execute_two_run_determinism:
  assumes "transitions' p2 = transitions' p1"
    and "\<forall>t \<in> set (transitions' p1).
           runtime_getRawResource (runtime' p2) (resource t) =
           runtime_getRawResource (runtime' p1) (resource t)"
    and "(outcome (execute p1 frameIndex cmdList1) = Inr ()) =
         (outcome (execute p2 frameIndex cmdList2) = Inr ())"
  shows "barrierBatches (calls (execute p1 frameIndex cmdList1)) =
         barrierBatches (calls (execute p2 frameIndex cmdList2))"
proof -
  have entry: "entryBarriers' (after (execute p2 frameIndex cmdList2)) =
               entryBarriers' (after (execute p1 frameIndex cmdList1))"
    using assms(1,2) by (simp add: after_execute cong: map_cong)
  have exit: "exitBarriers' (after (execute p2 frameIndex cmdList2)) =
              exitBarriers' (after (execute p1 frameIndex cmdList1))"
    using assms(1,2) by (simp add: after_execute cong: map_cong)
  show ?thesis
    unfolding barrierBatches_execute Let_def entry exit using assms(3) by simp
qed

text \<open>
  The sample pass executed at frame 0 on command list 7, and then, as that execution
  left it, at frame 0 on command list 8.
\<close>

theorem execute_two_run_determinism_witness:
  "transitions' (after (execute ex_pass 0 7)) = transitions' ex_pass
   \<and> outcome (execute ex_pass 0 7) = Inr ()
   \<and> outcome (execute (after (execute ex_pass 0 7)) 0 8) = Inr ()
   \<and> barrierBatches (calls (execute ex_pass 0 7)) =
       barrierBatches (calls (execute (after (execute ex_pass 0 7)) 0 8))
   \<and> barrierBatches (calls (execute ex_pass 0 7)) =
       [(2, [Transition 102 0 4 0, Transition 106 0 128 1]), (1, [Transition 102 4 0 0])]"
  using execute_two_run_determinism [of "after (execute ex_pass 0 7)" ex_pass 0 7 8]
  by (simp add: ex_after ex_outcome outcome_execute barrierBatches_execute)
     (simp add: ex_pass_def PassRuntime_def)

text \<open>
  Claim C8. \<^verbatim>\<open>execute\<close> leaves the runtime pointer, the callback, the transitions and
  the three descriptor maps of the pass as they were; the two scratch lists are the only
  members it writes. It clears them first: the pass it leaves is the same whatever the
  two lists held when it was called.
\<close>

theorem execute_mutates_scratch_only:
  "runtime' (after (execute p frameIndex cmdList)) = runtime' p
   \<and> callback' (after (execute p frameIndex cmdList)) = callback' p
   \<and> transitions' (after (execute p frameIndex cmdList)) = transitions' p
   \<and> descriptors' (after (execute p frameIndex cmdList)) = descriptors' p
   \<and> descriptorRanges' (after (execute p frameIndex cmdList)) = descriptorRanges' p
   \<and> descriptorResourcesMap' (after (execute p frameIndex cmdList)) = descriptorResourcesMap' p
   \<and> after (execute (p\<lparr>entryBarriers' := staleEntry, exitBarriers' := staleExit\<rparr>)
              frameIndex cmdList) = after (execute p frameIndex cmdList)"
  by (simp add: after_execute)

text \<open>
  Claim C9. \<^verbatim>\<open>execute\<close> raises no error of its own for a declared descriptor that the
  body does not ask for: for a pass that declares a descriptor for a resource, whenever
  the body returns, \<^verbatim>\<open>execute\<close> returns.
\<close>

theorem execute_succeeds_when_body_returns:
  assumes "descriptorResourcesMap' p i = Some usage"
    and "callback' p (PassContext6 (runtime' p) frameIndex cmdList (descriptors' p)
                        (descriptorResourcesMap' p) (descriptorRanges' p)) = Inr ()"
  shows "outcome (execute p frameIndex cmdList) = Inr ()"
  using assms(2) by (simp add: outcome_execute)

text \<open>The sample pass declares a descriptor for resource 1; its body ignores the context.\<close>

theorem execute_succeeds_when_body_returns_witness:
  "descriptorResourcesMap' ex_pass 1 = Some ex_usage
   \<and> callback' ex_pass = (\<lambda>ctx. Inr ())
   \<and> outcome (execute ex_pass 0 7) = Inr ()"
  using execute_succeeds_when_body_returns [of ex_pass 1 ex_usage 0 7]
  by (simp add: ex_pass_def PassRuntime_def)

text \<open>
  Claim C10. The one context that \<^verbatim>\<open>execute(frameIndex, cmdList)\<close> hands to the body
  answers \<^verbatim>\<open>getFrameIndex()\<close> with \<open>frameIndex\<close>, and \<^verbatim>\<open>getCommandList()\<close> and
  \<^verbatim>\<open>operator->\<close> with \<open>cmdList\<close>.
\<close>

theorem execute_context_getters:
  "map getFrameIndex (contexts (calls (execute p frameIndex cmdList))) = [frameIndex]
   \<and> map getCommandList (contexts (calls (execute p frameIndex cmdList))) = [cmdList]
   \<and> map operator_arrow (contexts (calls (execute p frameIndex cmdList))) = [cmdList]"
  by (simp add: calls_execute Let_def contexts_append getFrameIndex_def getCommandList_def
      operator_arrow_def PassContext6_def PassContext_def)

end
